theory Spec2Isabelle
  imports Main "HOL-Library.Word"
begin

section \<open>Python values and errors\<close>

text \<open>
  The client handles three kinds of data: text, integers and the values that the JSON
  decoder hands back. A text is a \<open>string\<close> that holds its UTF-8 bytes, one \<open>char\<close>
  per byte: an ASCII character is one byte below 128, every other character is a byte
  from 192 on followed by bytes from 128 to 191. A JSON number is a Python \<open>int\<close> or
  a \<open>float\<close>; a float is kept as its 64 bits. A JSON object is an association list
  read with \<open>map_of\<close>.
\<close>

type_synonym byte = "8 word"

datatype json =
    JNull
  | JBool bool
  | JInt int
  | JFloat "64 word"
  | JStr string
  | JList "json list"
  | JDict "(string \<times> json) list"

text \<open>The exceptions that the modelled code can raise.\<close>

datatype py_error =
    KeyError
  | TypeError
  | IndexError
  | AttributeError
  | ValueError
  | DecodeError

text \<open>Sequencing of fallible steps: the first exception ends the computation.\<close>

definition and_then :: "py_error + 'a \<Rightarrow> ('a \<Rightarrow> py_error + 'b) \<Rightarrow> py_error + 'b" where
  "and_then r f = (case r of Inl e \<Rightarrow> Inl e | Inr v \<Rightarrow> f v)"

text \<open>
  \<open>value[key]\<close> with a text key. Only a dict can be read that way; a key that is
  absent raises KeyError, and every other value raises TypeError.
\<close>

fun subscript_key :: "json \<Rightarrow> string \<Rightarrow> py_error + json" where
  "subscript_key (JDict kvs) k = (case map_of kvs k of None \<Rightarrow> Inl KeyError | Some v \<Rightarrow> Inr v)"
| "subscript_key _ k = Inl TypeError"

text \<open>
  \<open>value[index]\<close> with an integer index. A list and a text count negative indexes
  from the end and raise IndexError out of range; a decoded JSON object has text keys
  only, so an integer is never one of its keys; the other values cannot be indexed.
\<close>

definition list_index :: "'a list \<Rightarrow> int \<Rightarrow> py_error + 'a" where
  "list_index xs i =
     (if 0 \<le> i \<and> i < int (length xs) then Inr (xs ! nat i)
      else if i < 0 \<and> - int (length xs) \<le> i then Inr (xs ! nat (int (length xs) + i))
      else Inl IndexError)"

text \<open>
  The characters of a text, each with its bytes: a byte from 128 to 191 continues the
  character that the byte before it belongs to.
\<close>

definition is_continuation :: "char \<Rightarrow> bool" where
  "is_continuation c = (128 \<le> (of_char c :: nat) \<and> (of_char c :: nat) < 192)"

fun code_points :: "string \<Rightarrow> string list" where
  "code_points [] = []"
| "code_points (c # cs) =
     (case code_points cs of
        (d # p) # ps \<Rightarrow> if is_continuation d then (c # d # p) # ps else [c] # (d # p) # ps
      | _ \<Rightarrow> [[c]])"

fun subscript_index :: "json \<Rightarrow> int \<Rightarrow> py_error + json" where
  "subscript_index (JList xs) i = list_index xs i"
| "subscript_index (JStr s) i = and_then (list_index (code_points s) i) (\<lambda>c. Inr (JStr c))"
| "subscript_index (JDict kvs) i = Inl KeyError"
| "subscript_index _ i = Inl TypeError"

text \<open>Truth value of a Python object, as \<open>or\<close> and \<open>if\<close> test it.\<close>

fun truthy :: "json \<Rightarrow> bool" where
  "truthy JNull = False"
| "truthy (JBool b) = b"
| "truthy (JInt i) = (i \<noteq> 0)"
| "truthy (JFloat w) = (take_bit 63 w \<noteq> 0)"
| "truthy (JStr s) = (s \<noteq> [])"
| "truthy (JList xs) = (xs \<noteq> [])"
| "truthy (JDict kvs) = (kvs \<noteq> [])"

section \<open>Text primitives\<close>

text \<open>\<open>str(n)\<close> for an integer: its decimal digits, with a minus sign when negative.\<close>

definition digit_char :: "nat \<Rightarrow> char" where
  "digit_char d = char_of (48 + d)"

fun str_nat :: "nat \<Rightarrow> string" where
  "str_nat n = (if n < 10 then [digit_char n] else str_nat (n div 10) @ [digit_char (n mod 10)])"

declare str_nat.simps [simp del]

definition str_int :: "int \<Rightarrow> string" where
  "str_int i = (if i < 0 then CHR ''-'' # str_nat (nat (- i)) else str_nat (nat i))"

text \<open>\<open>bytes(value, encoding='utf-8')\<close>: the bytes of the text.\<close>

definition utf8 :: "string \<Rightarrow> byte list" where
  "utf8 s = map (\<lambda>c. of_nat (of_char c)) s"

text \<open>\<open>hexdigest()\<close>: two lower-case hexadecimal digits for each byte of the digest.\<close>

definition hex_digit :: "nat \<Rightarrow> char" where
  "hex_digit d = (if d < 10 then char_of (48 + d) else char_of (87 + d))"

definition hex_byte :: "byte \<Rightarrow> string" where
  "hex_byte b = [hex_digit (unat b div 16), hex_digit (unat b mod 16)]"

definition hexdigest :: "byte list \<Rightarrow> string" where
  "hexdigest bs = concat (map hex_byte bs)"

definition is_hex_char :: "char \<Rightarrow> bool" where
  "is_hex_char c = (c \<in> set ''0123456789abcdef'')"

section \<open>Library functions taken as parameters\<close>

text \<open>
  The digest functions of \<open>hashlib\<close>, Python's \<open>repr\<close> of a float, a list or a dict
  and the Unicode case mapping of \<open>str.upper\<close> are not part of this repository. The
  model takes them as parameters: \<open>md5\<close> and \<open>sha512\<close> map the bytes hashed to the
  bytes of the digest, \<open>repr\<close> gives the text of a value, and \<open>upper\<close> gives
  \<open>text.upper()\<close> for a text that has a character outside ASCII.
\<close>

record library =
  md5 :: "byte list \<Rightarrow> byte list"
  sha512 :: "byte list \<Rightarrow> byte list"
  repr :: "json \<Rightarrow> string"
  upper :: "string \<Rightarrow> string"

text \<open>
  \<open>text.upper()\<close>. In a text of ASCII characters only, the letters a to z become A to Z
  and every other character stays; for any other text the result is the library's.
\<close>

definition is_ascii :: "char \<Rightarrow> bool" where
  "is_ascii c = ((of_char c :: nat) < 128)"

definition char_upper :: "char \<Rightarrow> char" where
  "char_upper c =
     (let n = (of_char c :: nat) in if 97 \<le> n \<and> n \<le> 122 then char_of (n - 32) else c)"

definition str_upper :: "library \<Rightarrow> string \<Rightarrow> string" where
  "str_upper lib s = (if list_all is_ascii s then map char_upper s else upper lib s)"

text \<open>The ASCII letters a to z.\<close>

definition is_lower_char :: "char \<Rightarrow> bool" where
  "is_lower_char c = (97 \<le> (of_char c :: nat) \<and> (of_char c :: nat) \<le> 122)"

text \<open>\<open>str(value)\<close> of a decoded JSON value.\<close>

fun py_str :: "library \<Rightarrow> json \<Rightarrow> string" where
  "py_str lib JNull = ''None''"
| "py_str lib (JBool b) = (if b then ''True'' else ''False'')"
| "py_str lib (JInt i) = str_int i"
| "py_str lib (JStr s) = s"
| "py_str lib v = repr lib v"

section \<open>The client\<close>

datatype AuthenticationMethods = MD5 | SHA512

text \<open>
  The attributes of \<open>Sagemcom_Client\<close>. The constructor accepts any object as
  \<open>authentication_method\<close>: \<open>Some m\<close> is the member \<open>m\<close> of the enumeration and
  \<open>None\<close> stands for every other object. \<open>_current_nonce\<close> is \<open>None\<close> until the first
  request, \<open>_auth_key\<close> does not exist until then. \<open>_session_id\<close> and \<open>_server_nonce\<close>
  hold whatever the router answered to the login, so they are JSON values.
\<close>

record client =
  host :: string
  username :: string
  authentication_method :: "AuthenticationMethods option"
  password_hash :: string
  current_nonce :: "int option"
  server_nonce :: json
  session_id :: json
  request_id :: int
  auth_key :: "string option"

text \<open>\<open>__generate_hash\<close>, lines 70 to 80.\<close>

definition generate_hash :: "library \<Rightarrow> AuthenticationMethods option \<Rightarrow> string \<Rightarrow> string" where
  "generate_hash lib method v =
     (let bytes_object = utf8 v
      in if method = Some MD5 then hexdigest (md5 lib bytes_object)
         else if method = Some SHA512 then hexdigest (sha512 lib bytes_object)
         else v)"

text \<open>\<open>__init__\<close>, lines 41 to 60.\<close>

definition init :: "library \<Rightarrow> string \<Rightarrow> string \<Rightarrow> string \<Rightarrow> AuthenticationMethods option \<Rightarrow> client" where
  "init lib h user password method =
     \<lparr> host = h,
       username = user,
       authentication_method = method,
       password_hash = generate_hash lib method password,
       current_nonce = None,
       server_nonce = JStr '''',
       session_id = JInt 0,
       request_id = - 1,
       auth_key = None \<rparr>"

text \<open>
  \<open>random.randrange(start, stop)\<close> draws from the integers \<open>start \<le> k < stop\<close> and
  raises ValueError when there is none. The draw is the parameter \<open>r\<close>.
\<close>

definition randrange :: "int \<Rightarrow> int \<Rightarrow> nat \<Rightarrow> py_error + int" where
  "randrange start stop r =
     (if stop \<le> start then Inl ValueError else Inr (start + int r mod (stop - start)))"

text \<open>\<open>__generate_nonce\<close>, lines 62 to 64. \<open>math.floor\<close> of an integer is that integer.\<close>

definition generate_nonce :: "nat \<Rightarrow> client \<Rightarrow> (py_error + unit) \<times> client" where
  "generate_nonce r c =
     (case randrange 0 1 r of
        Inl e \<Rightarrow> (Inl e, c)
      | Inr k \<Rightarrow> (Inr (), c\<lparr>current_nonce := Some (k * 500000)\<rparr>))"

text \<open>\<open>__generate_request_id\<close>, lines 66 to 68.\<close>

definition generate_request_id :: "client \<Rightarrow> client" where
  "generate_request_id c = c\<lparr>request_id := request_id c + 1\<rparr>"

text \<open>
  \<open>__get_credential_hash\<close>, lines 82 to 84. Joining text with \<open>+\<close> raises TypeError
  when the server nonce is not text.
\<close>

definition get_credential_hash :: "library \<Rightarrow> client \<Rightarrow> py_error + string" where
  "get_credential_hash lib c =
     (case server_nonce c of
        JStr n \<Rightarrow>
          Inr (generate_hash lib (authentication_method c)
                 (username c @ '':'' @ n @ '':'' @ password_hash c))
      | _ \<Rightarrow> Inl TypeError)"

text \<open>\<open>str(self._current_nonce)\<close>: the nonce is an integer, or None before the first one.\<close>

definition str_nonce :: "int option \<Rightarrow> string" where
  "str_nonce n = (case n of None \<Rightarrow> ''None'' | Some k \<Rightarrow> str_int k)"

text \<open>\<open>__generate_auth_key\<close>, lines 86 to 92.\<close>

definition generate_auth_key :: "library \<Rightarrow> client \<Rightarrow> (py_error + unit) \<times> client" where
  "generate_auth_key lib c =
     (case get_credential_hash lib c of
        Inl e \<Rightarrow> (Inl e, c)
      | Inr credential_hash \<Rightarrow>
          (let auth_string = credential_hash @ '':'' @ str_int (request_id c) @
                 '':'' @ str_nonce (current_nonce c) @ '':JSON:/cgi/json-req''
           in (Inr (), c\<lparr>auth_key := Some (generate_hash lib (authentication_method c) auth_string)\<rparr>)))"

section \<open>Requests and responses\<close>

text \<open>
  \<open>try: ... except KeyError: value = None\<close>: a KeyError becomes None, every other
  exception goes on to the caller.
\<close>

definition except_KeyError :: "py_error + json \<Rightarrow> py_error + json" where
  "except_KeyError r = (case r of Inl KeyError \<Rightarrow> Inr JNull | Inl e \<Rightarrow> Inl e | Inr v \<Rightarrow> Inr v)"

text \<open>\<open>__get_response_error\<close>, lines 94 to 101.\<close>

definition get_response_error :: "json \<Rightarrow> py_error + json" where
  "get_response_error response =
     except_KeyError
       (and_then (subscript_key response ''reply'') (\<lambda>reply. subscript_key reply ''error''))"

text \<open>\<open>__get_response_value\<close>, lines 103 to 110.\<close>

definition get_response_value :: "json \<Rightarrow> int \<Rightarrow> py_error + json" where
  "get_response_value response index =
     except_KeyError
       (and_then (subscript_key response ''reply'') (\<lambda>reply.
        and_then (subscript_key reply ''actions'') (\<lambda>actions.
        and_then (subscript_index actions index) (\<lambda>action.
        and_then (subscript_key action ''callbacks'') (\<lambda>callbacks.
        and_then (subscript_index callbacks index) (\<lambda>callback.
        subscript_key callback ''parameters''))))))"

text \<open>
  What the transport hands back for a request: the status, the body as text
  (\<open>response.text()\<close>) and the body decoded as JSON (\<open>response.json()\<close>), \<open>None\<close> when
  the body does not decode. The transport itself is a parameter: a function from the
  address and the envelope posted to the response.
\<close>

record http_response =
  status :: int
  body_text :: string
  body_json :: "json option"

type_synonym transport = "string \<Rightarrow> json \<Rightarrow> http_response"

text \<open>The envelope of lines 121 to 130.\<close>

definition payload :: "library \<Rightarrow> client \<Rightarrow> json \<Rightarrow> bool \<Rightarrow> string \<Rightarrow> json" where
  "payload lib c actions priority key =
     JDict [(''request'', JDict
       [(''id'', JInt (request_id c)),
        (''session-id'', JStr (py_str lib (session_id c))),
        (''priority'', JBool priority),
        (''actions'', actions),
        (''cnonce'', (case current_nonce c of None \<Rightarrow> JNull | Some k \<Rightarrow> JInt k)),
        (''auth-key'', JStr key)])]"

text \<open>
  Lines 136 to 151, what is done with the response. The tests \<open>status is 200\<close> and
  \<open>status is not 200\<close> hold exactly when the status is, or is not, the integer 200.
  The \<open>print\<close> calls write to the standard output and change neither the value
  returned nor the client, so the branch for status 400, which only prints, leaves no
  trace here. \<open>response.json()\<close> raises when the body does not decode.
\<close>

definition handle_response :: "http_response \<Rightarrow> py_error + json" where
  "handle_response response =
     (if status response \<noteq> 200 then Inr (JStr (body_text response))
      else (case body_json response of
              None \<Rightarrow> Inl DecodeError
            | Some result \<Rightarrow>
                and_then (get_response_error result) (\<lambda>error.
                and_then (subscript_key error ''description'') (\<lambda>description.
                Inr result))))"

text \<open>
  \<open>__api_request_async\<close>, lines 112 to 151. The result is the value returned or the
  exception raised, the client as the call leaves it, and the envelope that the call
  posted, if it came to post one.
\<close>

definition api_request_async ::
  "library \<Rightarrow> nat \<Rightarrow> transport \<Rightarrow> client \<Rightarrow> json \<Rightarrow> bool \<Rightarrow> (py_error + json) \<times> client \<times> json option" where
  "api_request_async lib r post c actions priority =
     (let c1 = generate_request_id c in
      case generate_nonce r c1 of
        (Inl e, c2) \<Rightarrow> (Inl e, c2, None)
      | (Inr _, c2) \<Rightarrow>
          (case generate_auth_key lib c2 of
             (Inl e, c3) \<Rightarrow> (Inl e, c3, None)
           | (Inr _, c3) \<Rightarrow>
               (case auth_key c3 of
                  None \<Rightarrow> (Inl AttributeError, c3, None)
                | Some key \<Rightarrow>
                    (let api_host = ''http://'' @ host c3 @ ''/cgi/json-req'';
                         envelope = payload lib c3 actions priority key
                     in (handle_response (post api_host envelope), c3, Some envelope)))))"

section \<open>The operations\<close>

definition login_actions :: "client \<Rightarrow> json" where
  "login_actions c =
     JDict
      [(''method'', JStr ''logIn''),
       (''parameters'', JDict
         [(''user'', JStr (username c)),
          (''persistent'', JStr ''true''),
          (''session-options'', JDict
            [(''nss'', JList [JDict [(''name'', JStr ''gtw''),
                                     (''uri'', JStr ''http://sagemcom.com/gateway-data'')]]),
             (''language'', JStr ''ident''),
             (''context-flags'', JDict [(''get-content-name'', JBool True),
                                        (''local-time'', JBool True)]),
             (''capability-depth'', JInt 2),
             (''capability-flags'', JDict [(''name'', JBool True),
                                           (''default-value'', JBool False),
                                           (''restriction'', JBool True),
                                           (''description'', JBool False)]),
             (''time-format'', JStr ''ISO_8601''),
             (''write-only-string'', JStr ''_XMO_WRITE_ONLY_''),
             (''undefined-write-only-string'', JStr ''_XMO_UNDEFINED_WRITE_ONLY_'')])])]"

text \<open>\<open>login\<close>, lines 153 to 193.\<close>

definition login ::
  "library \<Rightarrow> nat \<Rightarrow> transport \<Rightarrow> client \<Rightarrow> (py_error + bool) \<times> client \<times> json option" where
  "login lib r post c =
     (case api_request_async lib r post c (JList [login_actions c]) True of
        (Inl e, c1, sent) \<Rightarrow> (Inl e, c1, sent)
      | (Inr response, c1, sent) \<Rightarrow>
          (case get_response_value response 0 of
             Inl e \<Rightarrow> (Inl e, c1, sent)
           | Inr data \<Rightarrow>
               (case subscript_key data ''id'' of
                  Inl e \<Rightarrow> (Inl e, c1, sent)
                | Inr i \<Rightarrow>
                    if i = JNull then (Inr False, c1, sent)
                    else (case subscript_key data ''nonce'' of
                            Inl e \<Rightarrow> (Inl e, c1, sent)
                          | Inr n \<Rightarrow>
                              if n = JNull then (Inr False, c1, sent)
                              else (Inr True, c1\<lparr>session_id := i, server_nonce := n\<rparr>, sent)))))"

text \<open>
  The four operations of lines 195 to 248 differ in their action only: each sends it
  without priority and returns the parameters unwrapped from the response.
\<close>

definition request_value ::
  "library \<Rightarrow> nat \<Rightarrow> transport \<Rightarrow> client \<Rightarrow> json \<Rightarrow> (py_error + json) \<times> client \<times> json option" where
  "request_value lib r post c actions =
     (case api_request_async lib r post c (JList [actions]) False of
        (Inl e, c1, sent) \<Rightarrow> (Inl e, c1, sent)
      | (Inr response, c1, sent) \<Rightarrow> (get_response_value response 0, c1, sent))"

definition get_device_info ::
  "library \<Rightarrow> nat \<Rightarrow> transport \<Rightarrow> client \<Rightarrow> (py_error + json) \<times> client \<times> json option" where
  "get_device_info lib r post c =
     request_value lib r post c
       (JDict [(''id'', JInt 0), (''method'', JStr ''getValue''),
               (''xpath'', JStr ''Device/DeviceInfo'')])"

definition get_port_mappings ::
  "library \<Rightarrow> nat \<Rightarrow> transport \<Rightarrow> client \<Rightarrow> (py_error + json) \<times> client \<times> json option" where
  "get_port_mappings lib r post c =
     request_value lib r post c
       (JDict [(''id'', JInt 0), (''method'', JStr ''getValue''),
               (''xpath'', JStr ''Device/NAT/PortMappings'')])"

definition get_hosts ::
  "library \<Rightarrow> nat \<Rightarrow> transport \<Rightarrow> client \<Rightarrow> (py_error + json) \<times> client \<times> json option" where
  "get_hosts lib r post c =
     request_value lib r post c
       (JDict [(''id'', JInt 0), (''method'', JStr ''getValue''),
               (''xpath'', JStr ''Device/Hosts/Hosts''),
               (''options'', JDict [(''capability-flags'', JDict [(''interface'', JBool True)])])])"

definition reboot ::
  "library \<Rightarrow> nat \<Rightarrow> transport \<Rightarrow> client \<Rightarrow> (py_error + json) \<times> client \<times> json option" where
  "reboot lib r post c =
     request_value lib r post c
       (JDict [(''method'', JStr ''reboot''), (''xpath'', JStr ''Device''),
               (''parameters'', JDict [(''source'', JStr ''GUI'')])])"

text \<open>
  A sequence of calls on one client. Each call comes with the draw of the random
  generator and with the transport that answers it; the run keeps, call by call, the
  envelope posted.
\<close>

datatype operation = Login | Get_device_info | Get_port_mappings | Get_hosts | Reboot

definition perform ::
  "library \<Rightarrow> operation \<Rightarrow> nat \<Rightarrow> transport \<Rightarrow> client \<Rightarrow> client \<times> json option" where
  "perform lib op r post c =
     (case op of
        Login \<Rightarrow> snd (login lib r post c)
      | Get_device_info \<Rightarrow> snd (get_device_info lib r post c)
      | Get_port_mappings \<Rightarrow> snd (get_port_mappings lib r post c)
      | Get_hosts \<Rightarrow> snd (get_hosts lib r post c)
      | Reboot \<Rightarrow> snd (reboot lib r post c))"

fun run ::
  "library \<Rightarrow> (operation \<times> nat \<times> transport) list \<Rightarrow> client \<Rightarrow> client \<times> json option list" where
  "run lib [] c = (c, [])"
| "run lib ((op, r, post) # calls) c =
     (case perform lib op r post c of
        (c1, sent) \<Rightarrow> (case run lib calls c1 of (c2, log) \<Rightarrow> (c2, sent # log)))"

text \<open>The request ID that an envelope carries.\<close>

definition envelope_id :: "json \<Rightarrow> py_error + json" where
  "envelope_id envelope =
     and_then (subscript_key envelope ''request'') (\<lambda>request. subscript_key request ''id'')"

section \<open>Host records\<close>

text \<open>The named tuple \<open>Device\<close> of lines 33 to 35.\<close>

record Device =
  mac_address :: string
  ip_address :: json
  ipv4_addresses :: json
  ipv6_addresses :: json
  name :: json
  address_source :: json
  interface :: json
  active :: json
  user_friendly_name :: json
  detected_device_type :: json
  user_device_type :: json

text \<open>\<open>value.upper()\<close>: a value that is not text has no such method.\<close>

fun upper_method :: "library \<Rightarrow> json \<Rightarrow> py_error + string" where
  "upper_method lib (JStr s) = Inr (str_upper lib s)"
| "upper_method lib _ = Inl AttributeError"

text \<open>
  The call \<open>Device(...)\<close> of lines 257 to 269. The arguments are evaluated in the order
  written; \<open>a or b\<close> evaluates \<open>b\<close> only when \<open>a\<close> is false.
\<close>

definition make_device :: "library \<Rightarrow> json \<Rightarrow> py_error + Device" where
  "make_device lib device =
     and_then (subscript_key device ''PhysAddress'') (\<lambda>phys.
     and_then (upper_method lib phys) (\<lambda>mac.
     and_then (subscript_key device ''IPAddress'') (\<lambda>ip.
     and_then (subscript_key device ''IPv4Addresses'') (\<lambda>ipv4.
     and_then (subscript_key device ''IPv6Addresses'') (\<lambda>ipv6.
     and_then (subscript_key device ''AddressSource'') (\<lambda>source.
     and_then (subscript_key device ''UserHostName'') (\<lambda>user_host_name.
     and_then (if truthy user_host_name then Inr user_host_name
               else subscript_key device ''HostName'') (\<lambda>nm.
     and_then (subscript_key device ''InterfaceType'') (\<lambda>iface.
     and_then (subscript_key device ''Active'') (\<lambda>act.
     and_then (subscript_key device ''UserFriendlyName'') (\<lambda>friendly.
     and_then (subscript_key device ''DetectedDeviceType'') (\<lambda>detected.
     and_then (subscript_key device ''UserDeviceType'') (\<lambda>user_type.
     Inr \<lparr> mac_address = mac, ip_address = ip, ipv4_addresses = ipv4,
           ipv6_addresses = ipv6, name = nm, address_source = source,
           interface = iface, active = act, user_friendly_name = friendly,
           detected_device_type = detected, user_device_type = user_type \<rparr>)))))))))))))"

text \<open>The test \<open>not only_active or device['Active']\<close> of line 255.\<close>

definition wanted :: "bool \<Rightarrow> json \<Rightarrow> py_error + bool" where
  "wanted only_active device =
     (if \<not> only_active then Inr True
      else and_then (subscript_key device ''Active'') (\<lambda>act. Inr (truthy act)))"

text \<open>
  \<open>parse_devices\<close>, lines 250 to 273: the loop over \<open>data\<close>, with the list \<open>devices\<close>
  built so far.
\<close>

fun parse_loop :: "library \<Rightarrow> bool \<Rightarrow> json list \<Rightarrow> Device list \<Rightarrow> py_error + Device list" where
  "parse_loop lib only_active [] devices = Inr devices"
| "parse_loop lib only_active (device # data) devices =
     and_then (wanted only_active device) (\<lambda>w.
       if w then and_then (make_device lib device) (\<lambda>d. parse_loop lib only_active data (devices @ [d]))
       else parse_loop lib only_active data devices)"

definition parse_devices :: "library \<Rightarrow> json list \<Rightarrow> bool \<Rightarrow> py_error + Device list" where
  "parse_devices lib data only_active = parse_loop lib only_active data []"

text \<open>
  The digest that the specification names: the hexadecimal digest of the UTF-8 bytes of
  a text, under MD5 or SHA-512.
\<close>

definition digest :: "library \<Rightarrow> AuthenticationMethods \<Rightarrow> string \<Rightarrow> string" where
  "digest lib m s = hexdigest ((case m of MD5 \<Rightarrow> md5 lib | SHA512 \<Rightarrow> sha512 lib) (utf8 s))"

text \<open>
  Stand-ins for the library, used where a theorem is applied to concrete data: the
  digest of some bytes is the single byte counting them (MD5) or that byte twice
  (SHA-512), \<open>repr\<close> is a fixed text and \<open>upper\<close> gives back its argument.
\<close>

definition sample_library :: library where
  "sample_library =
     \<lparr> md5 = (\<lambda>bs. [of_nat (length bs)]),
       sha512 = (\<lambda>bs. [of_nat (length bs), of_nat (length bs)]),
       repr = (\<lambda>v. ''<repr>''),
       upper = (\<lambda>s. s) \<rparr>"

text \<open>
  A reply of the router in the shape of the wire protocol, with the description of its
  error entry and the parameters of its one callback, and the transport that gives the
  same response whatever is posted.
\<close>

definition reply :: "string \<Rightarrow> json \<Rightarrow> json" where
  "reply description parameters =
     JDict [(''reply'', JDict
       [(''error'', JDict [(''description'', JStr description)]),
        (''actions'', JList [JDict [(''callbacks'', JList [JDict [(''parameters'', parameters)]])]])])]"

definition respond :: "http_response \<Rightarrow> transport" where
  "respond response = (\<lambda>url envelope. response)"

definition sample_client :: client where
  "sample_client = init sample_library ''192.168.1.1'' ''admin'' ''secret'' (Some MD5)"

definition login_accepted :: http_response where
  \<open>login_accepted =
     \<lparr> status = 200,
       body_text = ''{"reply":{"error":{"description":"XMO_REQUEST_NO_ERR"},"actions":[{"callbacks":[{"parameters":{"id":5,"nonce":"abc"}}]}]}}'',
       body_json = Some (reply ''XMO_REQUEST_NO_ERR'' (JDict [(''id'', JInt 5), (''nonce'', JStr ''abc'')])) \<rparr>\<close>

definition login_without_id :: http_response where
  \<open>login_without_id =
     \<lparr> status = 200,
       body_text = ''{"reply":{"error":{"description":"XMO_REQUEST_NO_ERR"},"actions":[{"callbacks":[{"parameters":{"id":null,"nonce":"abc"}}]}]}}'',
       body_json = Some (reply ''XMO_REQUEST_NO_ERR'' (JDict [(''id'', JNull), (''nonce'', JStr ''abc'')])) \<rparr>\<close>

text \<open>Responses for which the request path is evaluated below.\<close>

definition rejected :: http_response where
  "rejected = \<lparr> status = 401, body_text = ''Unauthorized'', body_json = None \<rparr>"

definition session_expired :: http_response where
  \<open>session_expired =
     \<lparr> status = 200,
       body_text = ''{"reply":{"error":{"description":"XMO_INVALID_SESSION_ERR"},"actions":[{"callbacks":[{"parameters":{"x":1}}]}]}}'',
       body_json = Some (reply ''XMO_INVALID_SESSION_ERR'' (JDict [(''x'', JInt 1)])) \<rparr>\<close>

definition empty_object :: http_response where
  "empty_object = \<lparr> status = 200, body_text = ''{}'', body_json = Some (JDict []) \<rparr>"

section \<open>What the specification says of host records\<close>

text \<open>The value of a field of a raw host record, None for a field that is not there.\<close>

fun field :: "json \<Rightarrow> string \<Rightarrow> json" where
  "field (JDict kvs) k = (case map_of kvs k of None \<Rightarrow> JNull | Some v \<Rightarrow> v)"
| "field _ k = JNull"

fun has_key :: "json \<Rightarrow> string \<Rightarrow> bool" where
  "has_key (JDict kvs) k = (map_of kvs k \<noteq> None)"
| "has_key _ k = False"

fun is_text :: "json \<Rightarrow> bool" where
  "is_text (JStr s) = True"
| "is_text _ = False"

fun text_of :: "json \<Rightarrow> string" where
  "text_of (JStr s) = s"
| "text_of _ = []"

text \<open>
  A raw host record, as the router lists them: an object with the twelve fields that
  \<open>parse_devices\<close> reads, whose physical address is a text.
\<close>

definition raw_host :: "json \<Rightarrow> bool" where
  "raw_host device =
     (list_all (has_key device)
        [''PhysAddress'', ''IPAddress'', ''IPv4Addresses'', ''IPv6Addresses'',
         ''AddressSource'', ''UserHostName'', ''HostName'', ''InterfaceType'', ''Active'',
         ''UserFriendlyName'', ''DetectedDeviceType'', ''UserDeviceType'']
      \<and> is_text (field device ''PhysAddress''))"

text \<open>The active flag of a record, and the name that the specification gives it.\<close>

definition active_flag :: "json \<Rightarrow> bool" where
  "active_flag device = truthy (field device ''Active'')"

definition resolved_name :: "json \<Rightarrow> json" where
  "resolved_name device =
     (if truthy (field device ''UserHostName'') then field device ''UserHostName''
      else field device ''HostName'')"

text \<open>The normalised record of a raw host record, field by field as the specification lists it.\<close>

definition normalized :: "library \<Rightarrow> json \<Rightarrow> Device" where
  "normalized lib device =
     \<lparr> mac_address = str_upper lib (text_of (field device ''PhysAddress'')),
       ip_address = field device ''IPAddress'',
       ipv4_addresses = field device ''IPv4Addresses'',
       ipv6_addresses = field device ''IPv6Addresses'',
       name = resolved_name device,
       address_source = field device ''AddressSource'',
       interface = field device ''InterfaceType'',
       active = field device ''Active'',
       user_friendly_name = field device ''UserFriendlyName'',
       detected_device_type = field device ''DetectedDeviceType'',
       user_device_type = field device ''UserDeviceType'' \<rparr>"

text \<open>The records that \<open>parse_devices\<close> is asked to keep.\<close>

definition kept :: "bool \<Rightarrow> json \<Rightarrow> bool" where
  "kept only_active device = (\<not> only_active \<or> active_flag device)"

text \<open>Two host records: a laptop that is not active and a phone that is.\<close>

definition laptop :: json where
  "laptop = JDict
     [(''Active'', JBool False), (''PhysAddress'', JStr ''aa:bb:cc:dd:ee:ff''),
      (''IPAddress'', JStr ''192.168.1.20''), (''IPv4Addresses'', JList []),
      (''IPv6Addresses'', JList []), (''AddressSource'', JStr ''DHCP''),
      (''UserHostName'', JStr []), (''HostName'', JStr ''laptop''),
      (''InterfaceType'', JStr ''Ethernet''), (''UserFriendlyName'', JStr ''laptop''),
      (''DetectedDeviceType'', JStr ''Computer''), (''UserDeviceType'', JStr [])]"

definition phone :: json where
  "phone = JDict
     [(''Active'', JBool True), (''PhysAddress'', JStr ''0a:1B:2c:3D:4e:5F''),
      (''IPAddress'', JStr ''192.168.1.21''), (''IPv4Addresses'', JList []),
      (''IPv6Addresses'', JList []), (''AddressSource'', JStr ''DHCP''),
      (''UserHostName'', JStr ''my phone''), (''HostName'', JStr ''android-1234''),
      (''InterfaceType'', JStr ''WiFi''), (''UserFriendlyName'', JStr ''my phone''),
      (''DetectedDeviceType'', JStr ''Phone''), (''UserDeviceType'', JStr [])]"

section \<open>The authentication key\<close>

lemma hex_digit_table: "list_all (\<lambda>d. is_hex_char (hex_digit d)) [0..<16]"
  by code_simp

lemma hex_digit_is_hex: "d < 16 \<Longrightarrow> is_hex_char (hex_digit d)"
proof -
  assume "d < 16"
  then have "d \<in> set [0..<16]" by simp
  with hex_digit_table show ?thesis
    unfolding list_all_iff by blast
qed

lemma hex_byte_is_hex: "c \<in> set (hex_byte b) \<Longrightarrow> is_hex_char c"
proof -
  assume c: "c \<in> set (hex_byte b)"
  have "unat b < 256" using unsigned_less [of b] by simp
  then have "unat b div 16 < 16" by simp
  moreover have "unat b mod 16 < 16" by simp
  ultimately show ?thesis
    using c hex_digit_is_hex by (auto simp: hex_byte_def)
qed

lemma hexdigest_is_hex: "c \<in> set (hexdigest bs) \<Longrightarrow> is_hex_char c"
  by (auto simp: hexdigest_def dest: hex_byte_is_hex)

lemma digest_is_hex: "c \<in> set (digest lib m s) \<Longrightarrow> is_hex_char c"
  unfolding digest_def by (rule hexdigest_is_hex)

lemma generate_hash_member: "generate_hash lib (Some m) v = digest lib m v"
  by (cases m) (simp_all add: generate_hash_def digest_def)

text \<open>
  C1. For each of the two digests, and whatever the user name, the password hash, the
  server nonce (a text), the client nonce and the request ID are, the key that
  \<open>__generate_auth_key\<close> stores is the digest of the credential hash, the request ID,
  the client nonce and \<open>JSON:/cgi/json-req\<close> joined by colons, where the credential hash
  is the digest of user name, server nonce and password hash joined by colons; and every
  character of the key is a hexadecimal digit.
\<close>

theorem auth_key_formula:
  assumes "authentication_method c = Some m"
    and "server_nonce c = JStr sn"
    and "current_nonce c = Some cn"
  shows "generate_auth_key lib c =
           (Inr (), c\<lparr>auth_key := Some (digest lib m
              (digest lib m (username c @ '':'' @ sn @ '':'' @ password_hash c) @
               '':'' @ str_int (request_id c) @ '':'' @ str_int cn @ '':JSON:/cgi/json-req''))\<rparr>)
         \<and> (\<forall>ch \<in> set (the (auth_key (snd (generate_auth_key lib c)))). is_hex_char ch)"
  using assms
  by (simp add: generate_auth_key_def get_credential_hash_def generate_hash_member
      str_nonce_def digest_is_hex)

theorem auth_key_formula_witness:
  "authentication_method (sample_client\<lparr>current_nonce := Some 0, request_id := 0\<rparr>) = Some MD5
   \<and> server_nonce (sample_client\<lparr>current_nonce := Some 0, request_id := 0\<rparr>) = JStr []
   \<and> current_nonce (sample_client\<lparr>current_nonce := Some 0, request_id := 0\<rparr>) = Some 0
   \<and> auth_key (snd (generate_auth_key sample_library
         (sample_client\<lparr>current_nonce := Some 0, request_id := 0\<rparr>))) =
       Some (digest sample_library MD5
               (digest sample_library MD5 ''admin::06'' @ '':0:0:JSON:/cgi/json-req''))
   \<and> digest sample_library MD5
         (digest sample_library MD5 ''admin::06'' @ '':0:0:JSON:/cgi/json-req'') = ''19''"
proof -
  let ?c = "sample_client\<lparr>current_nonce := Some 0, request_id := 0\<rparr>"
  have h: "authentication_method ?c = Some MD5" "server_nonce ?c = JStr []"
    "current_nonce ?c = Some 0"
    by (simp_all add: sample_client_def init_def)
  have p: "username ?c = ''admin''" "password_hash ?c = ''06''" "request_id ?c = 0"
    by code_simp+
  have s: "str_int 0 = ''0''" by code_simp
  have v: "digest sample_library MD5
             (digest sample_library MD5 ''admin::06'' @ '':0:0:JSON:/cgi/json-req'') = ''19''"
    by code_simp
  from auth_key_formula [OF h, of sample_library] p s v h show ?thesis by simp
qed

section \<open>The request path\<close>

lemma and_then_Inr [simp]: "and_then (Inr v) f = f v"
  by (simp add: and_then_def)

lemma and_then_Inl [simp]: "and_then (Inl e) f = Inl e"
  by (simp add: and_then_def)

lemma and_then_eq_Inr: "and_then r f = Inr y \<longleftrightarrow> (\<exists>v. r = Inr v \<and> f v = Inr y)"
  by (cases r) simp_all

lemma generate_nonce_zero: "generate_nonce r c = (Inr (), c\<lparr>current_nonce := Some 0\<rparr>)"
  by (simp add: generate_nonce_def randrange_def)

lemma api_request_id: "request_id (fst (snd (api_request_async lib r post c actions priority))) = request_id c + 1"
  by (simp add: api_request_async_def generate_request_id_def generate_nonce_zero generate_auth_key_def
      Let_def split: sum.splits option.splits prod.splits)


lemma api_request_sent:
  "snd (snd (api_request_async lib r post c actions priority)) = Some env \<Longrightarrow>
   envelope_id env = Inr (JInt (request_id c + 1))"
  by (auto simp add: api_request_async_def generate_request_id_def generate_nonce_zero generate_auth_key_def
      envelope_id_def payload_def Let_def
      split: sum.splits option.splits prod.splits)

lemma api_request_text_nonce:
  "server_nonce c = JStr sn \<Longrightarrow> \<exists>env. snd (snd (api_request_async lib r post c actions priority)) = Some env"
  by (auto simp add: api_request_async_def generate_request_id_def generate_nonce_zero generate_auth_key_def
      get_credential_hash_def Let_def
      split: sum.splits option.splits prod.splits)

lemma login_request_id: "request_id (fst (snd (login lib r post c))) = request_id c + 1"
proof -
  obtain res c1 sent where a: "api_request_async lib r post c (JList [login_actions c]) True = (res, c1, sent)"
    by (rule prod_cases3)
  with api_request_id [of lib r post c "JList [login_actions c]" True]
  have "request_id c1 = request_id c + 1" by simp
  with a show ?thesis by (auto simp: login_def split: sum.splits)
qed

lemma login_sent: "snd (snd (login lib r post c)) = snd (snd (api_request_async lib r post c (JList [login_actions c]) True))"
proof -
  obtain res c1 sent where a: "api_request_async lib r post c (JList [login_actions c]) True = (res, c1, sent)"
    by (rule prod_cases3)
  then show ?thesis by (auto simp: login_def split: sum.splits)
qed

lemma request_value_request_id: "request_id (fst (snd (request_value lib r post c a))) = request_id c + 1"
proof -
  obtain res c1 sent where a: "api_request_async lib r post c (JList [a]) False = (res, c1, sent)"
    by (rule prod_cases3)
  with api_request_id [of lib r post c "JList [a]" False]
  have "request_id c1 = request_id c + 1" by simp
  with a show ?thesis by (auto simp: request_value_def split: sum.splits)
qed

lemma request_value_sent: "snd (snd (request_value lib r post c a)) = snd (snd (api_request_async lib r post c (JList [a]) False))"
proof -
  obtain res c1 sent where a: "api_request_async lib r post c (JList [a]) False = (res, c1, sent)"
    by (rule prod_cases3)
  then show ?thesis by (auto simp: request_value_def split: sum.splits)
qed

lemma perform_request_id: "request_id (fst (perform lib op r post c)) = request_id c + 1"
  by (cases op) (simp_all add: perform_def login_request_id request_value_request_id
      get_device_info_def get_port_mappings_def get_hosts_def reboot_def)

lemma perform_sent: "snd (perform lib op r post c) = Some env \<Longrightarrow> envelope_id env = Inr (JInt (request_id c + 1))"
  by (cases op) (auto simp add: perform_def login_sent request_value_sent
      get_device_info_def get_port_mappings_def get_hosts_def reboot_def dest: api_request_sent)

lemma perform_posts: "server_nonce c = JStr sn \<Longrightarrow> \<exists>env. snd (perform lib op r post c) = Some env"
  by (cases op) (auto simp add: perform_def login_sent request_value_sent
      get_device_info_def get_port_mappings_def get_hosts_def reboot_def dest: api_request_text_nonce)

lemma run_ids:
  "run lib calls c = (c', log) \<Longrightarrow>
     length log = length calls \<and> request_id c' = request_id c + int (length calls) \<and>
     (\<forall>k<length log. \<forall>env. log ! k = Some env \<longrightarrow> envelope_id env = Inr (JInt (request_id c + 1 + int k)))"
proof (induction calls arbitrary: c c' log)
  case Nil
  then show ?case by simp
next
  case (Cons call calls)
  obtain op r post where call: "call = (op, r, post)" by (cases call) auto
  obtain c1 sent where p: "perform lib op r post c = (c1, sent)" by (cases "perform lib op r post c") auto
  obtain c2 log2 where r2: "run lib calls c1 = (c2, log2)" by (cases "run lib calls c1") auto
  from Cons.prems call p r2 have eqs: "c' = c2" "log = sent # log2" by simp_all
  from p perform_request_id [of lib op r post c] have rid: "request_id c1 = request_id c + 1" by simp
  from Cons.IH [OF r2] have ih: "length log2 = length calls"
    "request_id c2 = request_id c1 + int (length calls)"
    "\<And>k env. k < length log2 \<Longrightarrow> log2 ! k = Some env \<Longrightarrow> envelope_id env = Inr (JInt (request_id c1 + 1 + int k))"
    by auto
  have "envelope_id env = Inr (JInt (request_id c + 1 + int k))"
    if "k < length log" "log ! k = Some env" for k env
  proof (cases k)
    case 0
    with that eqs have "sent = Some env" by simp
    with p perform_sent [of lib op r post c env] 0 show ?thesis by simp
  next
    case (Suc j)
    with that eqs have "j < length log2" "log2 ! j = Some env" by simp_all
    from ih(3) [OF this] rid Suc show ?thesis by (simp add: algebra_simps)
  qed
  with eqs ih rid show ?case by simp
qed

text \<open>
  C4. Take any sequence of operations on a client just constructed, whatever the router
  answers. Every call adds one to the stored counter, which starts at -1; the envelope
  of the call number \<open>k\<close>, counting from 0, carries the request ID \<open>k\<close>; and the first
  call posts an envelope, whose request ID is 0. (A call posts no envelope when it
  stops, before the envelope is built, on a server nonce that is not a text.)
\<close>

theorem request_id_sequence:
  assumes "run lib calls (init lib h user password method) = (c', log)"
  shows "length log = length calls \<and> request_id c' = int (length calls) - 1 \<and>
         (\<forall>k<length log. \<forall>env. log ! k = Some env \<longrightarrow> envelope_id env = Inr (JInt (int k))) \<and>
         (calls \<noteq> [] \<longrightarrow> (\<exists>env. log ! 0 = Some env \<and> envelope_id env = Inr (JInt 0)))"
proof -
  let ?c = "init lib h user password method"
  have start: "request_id ?c = - 1" "server_nonce ?c = JStr []" by (simp_all add: init_def)
  from run_ids [OF assms] start have a: "length log = length calls" "request_id c' = int (length calls) - 1"
    "\<forall>k<length log. \<forall>env. log ! k = Some env \<longrightarrow> envelope_id env = Inr (JInt (int k))"
    by simp_all
  have "\<exists>env. log ! 0 = Some env \<and> envelope_id env = Inr (JInt 0)" if "calls \<noteq> []"
  proof -
    from that obtain op r post rest where calls: "calls = (op, r, post) # rest"
      by (cases calls) auto
    from perform_posts [OF start(2)] obtain env where "snd (perform lib op r post ?c) = Some env" by blast
    with assms calls have "log ! 0 = Some env" by (auto split: prod.splits)
    moreover from a(1) a(3) that this have "envelope_id env = Inr (JInt 0)" by auto
    ultimately show ?thesis by blast
  qed
  with a show ?thesis by blast
qed

theorem request_id_sequence_witness:
  "map (map_option envelope_id)
     (snd (run sample_library
        [(Login, 7, respond login_accepted), (Get_hosts, 3, respond login_without_id),
         (Reboot, 0, respond login_without_id)]
        (init sample_library ''192.168.1.1'' ''admin'' ''secret'' (Some MD5))))
     = [Some (Inr (JInt 0)), Some (Inr (JInt 1)), Some (Inr (JInt 2))]
   \<and> request_id (fst (run sample_library
        [(Login, 7, respond login_accepted), (Get_hosts, 3, respond login_without_id),
         (Reboot, 0, respond login_without_id)]
        (init sample_library ''192.168.1.1'' ''admin'' ''secret'' (Some MD5)))) = 2"
proof -
  let ?calls = "[(Login, 7::nat, respond login_accepted), (Get_hosts, 3, respond login_without_id),
                 (Reboot, 0, respond login_without_id)]"
  let ?run = "run sample_library ?calls
                (init sample_library ''192.168.1.1'' ''admin'' ''secret'' (Some MD5))"
  have posted: "map (map_option envelope_id) (snd ?run) =
                  [Some (Inr (JInt 0)), Some (Inr (JInt 1)), Some (Inr (JInt 2))]"
    by code_simp
  have r: "?run = (fst ?run, snd ?run)" by simp
  from request_id_sequence [OF r] have "request_id (fst ?run) = int (length ?calls) - 1"
    by blast
  then have "request_id (fst ?run) = 2" by simp
  with posted show ?thesis by (intro conjI)
qed

text \<open>
  C5. The specification asks for a client nonce that is drawn afresh for every request
  and does not always come out the same. In the code, whatever the generator draws,
  \<open>random.randrange(0, 1)\<close> is 0, so \<open>__generate_nonce\<close> stores 0 and every request
  is sent with the client nonce 0.
\<close>

theorem nonce_always_zero:
  "generate_nonce r c = (Inr (), c\<lparr>current_nonce := Some 0\<rparr>)
   \<and> current_nonce (fst (snd (api_request_async lib r post c actions priority))) = Some 0"
  by (simp add: api_request_async_def generate_request_id_def generate_nonce_zero generate_auth_key_def
      Let_def split: sum.splits option.splits prod.splits)

text \<open>
  C2. The specification asks that a status other than 200, and a status 200 whose error
  description is not \<open>XMO_REQUEST_NO_ERR\<close>, reach the caller as a failure that carries
  the status and the body, or the router's error. In the code, a response with status
  401 and the body \<open>Unauthorized\<close> makes the request path return that body as its
  value, and \<open>get_device_info\<close> then raises a TypeError that carries neither; a
  response with status 200 and the description \<open>XMO_INVALID_SESSION_ERR\<close> makes
  \<open>get_device_info\<close> return the parameters of the response as if the call had
  succeeded.
\<close>

theorem errors_returned_as_values:
  "fst (api_request_async lib r (respond rejected) (init lib h user password method) actions priority)
     = Inr (JStr ''Unauthorized'')
   \<and> fst (get_device_info lib r (respond rejected) (init lib h user password method))
     = Inl TypeError
   \<and> fst (get_device_info lib r (respond session_expired) (init lib h user password method))
     = Inr (JDict [(''x'', JInt 1)])"
  by (simp add: get_device_info_def request_value_def api_request_async_def
      generate_request_id_def generate_nonce_zero generate_auth_key_def get_credential_hash_def
      init_def Let_def respond_def rejected_def session_expired_def handle_response_def
      get_response_error_def get_response_value_def except_KeyError_def reply_def list_index_def)

text \<open>
  C6. The specification asks that a response of an unexpected shape give no value and
  never an exception. In the code, only a key missing from a dict gives None. The
  response \<open>{}\<close> with status 200 has no error entry: \<open>__get_response_error\<close> gives
  None for it, the request path then reads \<open>description\<close> from that None, and the call
  raises TypeError. An empty list of actions raises IndexError, and a response that is
  \<open>null\<close> raises TypeError, in both unwrapping functions.
\<close>

theorem unexpected_shapes_raise:
  "get_response_error (JDict []) = Inr JNull
   \<and> handle_response empty_object = Inl TypeError
   \<and> fst (get_device_info lib r (respond empty_object) (init lib h user password method))
       = Inl TypeError
   \<and> get_response_value (JDict [(''reply'', JDict [(''actions'', JList [])])]) 0 = Inl IndexError
   \<and> get_response_value JNull 0 = Inl TypeError
   \<and> get_response_error JNull = Inl TypeError"
  by (simp add: get_device_info_def request_value_def api_request_async_def
      generate_request_id_def generate_nonce_zero generate_auth_key_def get_credential_hash_def
      init_def Let_def respond_def empty_object_def handle_response_def
      get_response_error_def get_response_value_def except_KeyError_def list_index_def)



section \<open>Parsing host records\<close>

lemma subscript_key_field: "subscript_key device k = Inr v \<Longrightarrow> field device k = v"
  by (cases device) (auto split: option.splits)

lemma has_key_subscript: "has_key device k \<Longrightarrow> subscript_key device k = Inr (field device k)"
  by (cases device) auto

lemma upper_method_text:
  "upper_method lib v = Inr s \<Longrightarrow> is_text v \<and> s = str_upper lib (text_of v)"
  by (cases v) auto

lemma make_device_normalized:
  "make_device lib device = Inr d \<Longrightarrow>
   is_text (field device ''PhysAddress'') \<and> d = normalized lib device"
  by (auto simp add: make_device_def and_then_eq_Inr normalized_def resolved_name_def
      dest!: subscript_key_field upper_method_text split: if_splits)

lemma raw_host_make_device:
  "raw_host device \<Longrightarrow> make_device lib device = Inr (normalized lib device)"
proof -
  assume r: "raw_host device"
  then obtain s where "field device ''PhysAddress'' = JStr s"
    by (cases "field device ''PhysAddress''") (auto simp: raw_host_def)
  with r show ?thesis
    by (simp add: raw_host_def make_device_def has_key_subscript normalized_def resolved_name_def)
qed

lemma wanted_kept: "wanted only_active device = Inr w \<Longrightarrow> w = kept only_active device"
  by (auto simp add: wanted_def kept_def active_flag_def and_then_eq_Inr
      dest!: subscript_key_field split: if_splits)

lemma raw_host_wanted:
  "raw_host device \<Longrightarrow> wanted only_active device = Inr (kept only_active device)"
  by (simp add: raw_host_def wanted_def kept_def active_flag_def has_key_subscript)

lemma parse_loop_raw_hosts:
  "list_all raw_host data \<Longrightarrow>
   parse_loop lib only_active data devices =
     Inr (devices @ map (normalized lib) (filter (kept only_active) data))"
  by (induction data arbitrary: devices) (simp_all add: raw_host_wanted raw_host_make_device)

lemma parse_loop_result:
  "parse_loop lib only_active data devices = Inr ds \<Longrightarrow>
   ds = devices @ map (normalized lib) (filter (kept only_active) data) \<and>
   list_all (\<lambda>device. is_text (field device ''PhysAddress'')) (filter (kept only_active) data)"
proof (induction data arbitrary: devices)
  case Nil
  then show ?case by simp
next
  case (Cons device data)
  from Cons.prems obtain w where w: "wanted only_active device = Inr w"
    and rest: "(if w then and_then (make_device lib device)
                            (\<lambda>d. parse_loop lib only_active data (devices @ [d]))
                else parse_loop lib only_active data devices) = Inr ds"
    by (auto simp: and_then_eq_Inr)
  from w have k: "w = kept only_active device" by (rule wanted_kept)
  show ?case
  proof (cases w)
    case True
    with rest obtain d where d: "make_device lib device = Inr d"
      and l: "parse_loop lib only_active data (devices @ [d]) = Inr ds"
      by (auto simp: and_then_eq_Inr)
    from make_device_normalized [OF d] Cons.IH [OF l] True k show ?thesis by simp
  next
    case False
    with rest have "parse_loop lib only_active data devices = Inr ds" by simp
    from Cons.IH [OF this] False k show ?thesis by simp
  qed
qed

lemma char_upper_not_lower: "\<not> is_lower_char (char_upper c)"
  by (auto simp add: char_upper_def is_lower_char_def Let_def)

lemma str_upper_ascii_not_lower:
  "list_all is_ascii s \<Longrightarrow> ch \<in> set (str_upper lib s) \<Longrightarrow> \<not> is_lower_char ch"
  by (auto simp add: str_upper_def char_upper_not_lower)

lemma kept_True: "kept True = active_flag"
  by (rule ext) (simp add: kept_def)

lemma kept_False: "filter (kept False) data = data"
  by (simp add: kept_def)

text \<open>
  C7. For every sequence of raw host records, \<open>parse_devices\<close> with \<open>only_active\<close>
  true returns the normalised records of exactly those whose active flag is true, in
  their order, and with \<open>only_active\<close> false it returns the normalised record of
  every one of them.
\<close>

theorem parse_devices_filter:
  assumes "list_all raw_host data"
  shows "parse_devices lib data True = Inr (map (normalized lib) (filter active_flag data))
         \<and> parse_devices lib data False = Inr (map (normalized lib) data)"
  using parse_loop_raw_hosts [OF assms, of lib True "[]"]
    parse_loop_raw_hosts [OF assms, of lib False "[]"]
  by (simp add: parse_devices_def kept_True kept_False)

theorem parse_devices_filter_witness:
  "list_all raw_host [laptop, phone]
   \<and> parse_devices sample_library [laptop, phone] True = Inr [normalized sample_library phone]
   \<and> parse_devices sample_library [laptop, phone] False =
       Inr [normalized sample_library laptop, normalized sample_library phone]
   \<and> mac_address (normalized sample_library laptop) = ''AA:BB:CC:DD:EE:FF''
   \<and> name (normalized sample_library laptop) = JStr ''laptop''"
proof -
  have h: "list_all raw_host [laptop, phone]" by code_simp
  have a: "filter active_flag [laptop, phone] = [phone]" by code_simp
  have m: "mac_address (normalized sample_library laptop) = ''AA:BB:CC:DD:EE:FF''"
    "name (normalized sample_library laptop) = JStr ''laptop''" by code_simp+
  from parse_devices_filter [OF h, of sample_library] a m h show ?thesis by simp
qed

text \<open>
  C8. Whenever \<open>parse_devices\<close> returns, the records returned are, in order, those of
  the inputs that were to be kept, and for each of them: the physical address of the
  input is a text and the \<open>mac_address\<close> is \<open>upper()\<close> of that text, whatever its
  case; when the address is made of ASCII characters, as the addresses that a router
  reports are, no lower-case letter is left in the \<open>mac_address\<close>; and the \<open>name\<close> is
  the user-assigned host name when that is true in Python's sense (not empty) and the
  reported host name otherwise.
\<close>

theorem parsed_mac_and_name:
  assumes "parse_devices lib data only_active = Inr devices"
  shows "list_all2
           (\<lambda>device d.
              is_text (field device ''PhysAddress'') \<and>
              mac_address d = str_upper lib (text_of (field device ''PhysAddress'')) \<and>
              (list_all is_ascii (text_of (field device ''PhysAddress'')) \<longrightarrow>
                 mac_address d = map char_upper (text_of (field device ''PhysAddress'')) \<and>
                 (\<forall>ch \<in> set (mac_address d). \<not> is_lower_char ch)) \<and>
              name d = (if truthy (field device ''UserHostName'')
                        then field device ''UserHostName'' else field device ''HostName''))
           (filter (kept only_active) data) devices"
proof -
  from assms have "parse_loop lib only_active data [] = Inr devices"
    by (simp add: parse_devices_def)
  from parse_loop_result [OF this]
  have ds: "devices = map (normalized lib) (filter (kept only_active) data)"
    and texts: "list_all (\<lambda>device. is_text (field device ''PhysAddress''))
                  (filter (kept only_active) data)"
    by simp_all
  have "mac_address (normalized lib device) = str_upper lib (text_of (field device ''PhysAddress''))
        \<and> (list_all is_ascii (text_of (field device ''PhysAddress'')) \<longrightarrow>
             mac_address (normalized lib device) =
               map char_upper (text_of (field device ''PhysAddress'')) \<and>
             (\<forall>ch \<in> set (mac_address (normalized lib device)). \<not> is_lower_char ch))
        \<and> name (normalized lib device) =
             (if truthy (field device ''UserHostName'')
              then field device ''UserHostName'' else field device ''HostName'')"
    for device
    using str_upper_ascii_not_lower [of "text_of (field device ''PhysAddress'')" _ lib]
    by (simp add: normalized_def resolved_name_def) (simp add: str_upper_def)
  with texts show ?thesis
    unfolding ds list_all2_map2 list_all2_same list_all_iff by blast
qed

theorem parsed_mac_and_name_witness:
  "parse_devices sample_library [laptop, phone] False =
     Inr [normalized sample_library laptop, normalized sample_library phone]
   \<and> list_all is_ascii ''aa:bb:cc:dd:ee:ff''
   \<and> list_all is_ascii ''0a:1B:2c:3D:4e:5F''
   \<and> mac_address (normalized sample_library laptop) = ''AA:BB:CC:DD:EE:FF''
   \<and> name (normalized sample_library laptop) = JStr ''laptop''
   \<and> mac_address (normalized sample_library phone) = ''0A:1B:2C:3D:4E:5F''
   \<and> name (normalized sample_library phone) = JStr ''my phone''"
proof -
  have p: "parse_devices sample_library [laptop, phone] False =
             Inr [normalized sample_library laptop, normalized sample_library phone]"
    by code_simp
  have k: "filter (kept False) [laptop, phone] = [laptop, phone]" by code_simp
  have f: "text_of (field laptop ''PhysAddress'') = ''aa:bb:cc:dd:ee:ff''"
    "text_of (field phone ''PhysAddress'') = ''0a:1B:2c:3D:4e:5F''"
    "truthy (field laptop ''UserHostName'') = False" "field laptop ''HostName'' = JStr ''laptop''"
    "truthy (field phone ''UserHostName'') = True" "field phone ''UserHostName'' = JStr ''my phone''"
    by code_simp+
  have a: "list_all is_ascii ''aa:bb:cc:dd:ee:ff''" "list_all is_ascii ''0a:1B:2c:3D:4e:5F''"
    by code_simp+
  have u: "map char_upper ''aa:bb:cc:dd:ee:ff'' = ''AA:BB:CC:DD:EE:FF''"
    "map char_upper ''0a:1B:2c:3D:4e:5F'' = ''0A:1B:2C:3D:4E:5F''"
    by code_simp+
  from parsed_mac_and_name [OF p] have
    "list_all2
       (\<lambda>device d.
          (list_all is_ascii (text_of (field device ''PhysAddress'')) \<longrightarrow>
             mac_address d = map char_upper (text_of (field device ''PhysAddress''))) \<and>
          name d = (if truthy (field device ''UserHostName'')
                    then field device ''UserHostName'' else field device ''HostName''))
       (filter (kept False) [laptop, phone])
       [normalized sample_library laptop, normalized sample_library phone]"
    by (rule list_all2_mono) blast
  with k f a u p show ?thesis by simp
qed

section \<open>The hashes as functions of their inputs\<close>

text \<open>
  C9. The credential hash and the authentication key depend on the digest, the user
  name, the password hash, the server nonce, the client nonce and the request ID only:
  two clients that agree on these, whatever their other attributes, get the same
  credential hash and the same key; and the password hash depends on the digest and
  the password only.
\<close>

theorem hashes_determined_by_inputs:
  assumes "authentication_method c1 = authentication_method c2"
    and "username c1 = username c2"
    and "password_hash c1 = password_hash c2"
    and "server_nonce c1 = JStr sn" and "server_nonce c2 = JStr sn"
    and "current_nonce c1 = current_nonce c2"
    and "request_id c1 = request_id c2"
  shows "get_credential_hash lib c1 = get_credential_hash lib c2
         \<and> fst (generate_auth_key lib c1) = Inr ()
         \<and> fst (generate_auth_key lib c2) = Inr ()
         \<and> auth_key (snd (generate_auth_key lib c1)) = auth_key (snd (generate_auth_key lib c2))
         \<and> password_hash (init lib h1 user password method) =
             password_hash (init lib h2 user password method)"
  using assms
  by (simp add: get_credential_hash_def generate_auth_key_def init_def)

theorem hashes_determined_by_inputs_witness:
  "authentication_method sample_client =
     authentication_method (sample_client\<lparr>host := ''router.lan'', session_id := JInt 5,
        auth_key := Some ''00''\<rparr>)
   \<and> get_credential_hash sample_library sample_client =
       get_credential_hash sample_library
         (sample_client\<lparr>host := ''router.lan'', session_id := JInt 5, auth_key := Some ''00''\<rparr>)
   \<and> auth_key (snd (generate_auth_key sample_library sample_client)) = Some ''1d''
   \<and> auth_key (snd (generate_auth_key sample_library
         (sample_client\<lparr>host := ''router.lan'', session_id := JInt 5, auth_key := Some ''00''\<rparr>)))
       = Some ''1d''"
proof -
  let ?c2 = "sample_client\<lparr>host := ''router.lan'', session_id := JInt 5, auth_key := Some ''00''\<rparr>"
  have h: "authentication_method sample_client = authentication_method ?c2"
    "username sample_client = username ?c2"
    "password_hash sample_client = password_hash ?c2"
    "server_nonce sample_client = JStr []" "server_nonce ?c2 = JStr []"
    "current_nonce sample_client = current_nonce ?c2"
    "request_id sample_client = request_id ?c2"
    by (simp_all add: sample_client_def init_def)
  have v: "auth_key (snd (generate_auth_key sample_library sample_client)) = Some ''1d''"
    by code_simp
  from hashes_determined_by_inputs [OF h, of sample_library] v h(1) show ?thesis by simp
qed

text \<open>
  C10. With an \<open>authentication_method\<close> that is neither MD5 nor SHA-512,
  \<open>__generate_hash\<close> returns its argument: the password hash of the client is the
  password itself, and in every later state of that client the credential hash and the
  authentication key are the joined texts, not digests of them.
\<close>

theorem unknown_method_leaves_text_unhashed:
  "generate_hash lib None v = v
   \<and> password_hash (init lib h user password None) = password
   \<and> get_credential_hash lib
       ((init lib h user password None)\<lparr>server_nonce := JStr sn, session_id := sid,
          request_id := rid, current_nonce := cn, auth_key := k\<rparr>)
       = Inr (user @ '':'' @ sn @ '':'' @ password)
   \<and> auth_key (snd (generate_auth_key lib
       ((init lib h user password None)\<lparr>server_nonce := JStr sn, session_id := sid,
          request_id := rid, current_nonce := cn, auth_key := k\<rparr>)))
       = Some (user @ '':'' @ sn @ '':'' @ password @ '':'' @ str_int rid @ '':'' @
               str_nonce cn @ '':JSON:/cgi/json-req'')"
  by (simp add: generate_hash_def init_def get_credential_hash_def generate_auth_key_def)

end
